theory Spec2Isabelle
  imports Main "HOL-Library.AList"
begin

section \<open>Python values, dictionaries and exceptions\<close>

text \<open>
  The two source files, \<^verbatim>\<open>user_model.py\<close> and \<^verbatim>\<open>user.py\<close>, are dynamically typed:
  a stored document is a dictionary from field names to arbitrary values, and
  \<^verbatim>\<open>UserModel._to_dict\<close> works on \<^verbatim>\<open>vars(self)\<close>. Values are therefore one datatype and
  a dictionary is an association list (Python keeps the insertion order; \<open>AList.update\<close>
  overwrites in place or appends, \<open>AList.delete\<close> removes a key).

  A datetime is represented by its naive ISO-8601 text; \<open>PDbCtx\<close> is the database handle
  kept in the attribute \<^verbatim>\<open>db_ctx\<close>; \<open>PObjectId\<close> is the identifier the store assigns.
\<close>

datatype pyval =
    PNone
  | PBool bool
  | PInt int
  | PStr string
  | PDatetime string
  | PObjectId nat
  | PDbCtx
  | PDict "(string \<times> pyval) list"

type_synonym pydict = "(string \<times> pyval) list"

text \<open>Truth value of a Python object, as \<^verbatim>\<open>if x:\<close> reads it.\<close>

fun truthy :: "pyval \<Rightarrow> bool" where
  "truthy PNone = False"
| "truthy (PBool b) = b"
| "truthy (PInt i) = (i \<noteq> 0)"
| "truthy (PStr s) = (s \<noteq> [])"
| "truthy (PDatetime t) = True"
| "truthy (PObjectId n) = True"
| "truthy PDbCtx = True"
| "truthy (PDict d) = (d \<noteq> [])"

text \<open>
  The errors of the store driver (\<^verbatim>\<open>pymongo.errors.PyMongoError\<close>): a violated unique
  index, or any other failed operation with its server code.
\<close>

datatype pymongo_error = DuplicateKeyError | OperationFailure int

text \<open>Every exception a function of the model can raise.\<close>

datatype pyexn =
    KeyError string
  | TypeError
  | AttributeError
  | AssertionError
  | PyMongoError pymongo_error
  | BadSignature
  | SignatureExpired

section \<open>Token service (\<^verbatim>\<open>user.py\<close>, lines 76 to 91)\<close>

text \<open>
  \<^verbatim>\<open>app.config\<close> is a dictionary; \<^verbatim>\<open>app.config['SECRET_KEY']\<close> raises \<^verbatim>\<open>KeyError\<close> on a
  key that is not configured.
\<close>

type_synonym config = "(string \<times> string) list"

definition config_get :: "config \<Rightarrow> string \<Rightarrow> pyexn + string" where
  "config_get cfg k = (case map_of cfg k of None \<Rightarrow> Inl (KeyError k) | Some v \<Rightarrow> Inr v)"

text \<open>
  The signing library (\<^verbatim>\<open>itsdangerous.URLSafeTimedSerializer\<close>) is not part of the
  repository. The two functions of \<^verbatim>\<open>user.py\<close> take it as a parameter: \<open>dumps\<close> and
  \<open>loads\<close> receive the secret key the serializer was built with, the salt, and the
  clock reading of the call (the library reads \<^verbatim>\<open>time.time()\<close> itself); \<open>loads\<close> also
  receives \<^verbatim>\<open>max_age\<close> and either returns the payload or raises.
\<close>

record 'tok serializer =
  dumps :: "string \<Rightarrow> string \<Rightarrow> int \<Rightarrow> string \<Rightarrow> 'tok"
  loads :: "string \<Rightarrow> string \<Rightarrow> int \<Rightarrow> 'tok \<Rightarrow> int \<Rightarrow> pyexn + string"

text \<open>
  \<^verbatim>\<open>
  def generate_confirmation_token(email):
      serializer = URLSafeTimedSerializer(app.config['SECRET_KEY'])
      return serializer.dumps(email, salt=app.config['SECURITY_PASSWORD_SALT'])
  \<close>
\<close>

definition generate_confirmation_token ::
  "'tok serializer \<Rightarrow> config \<Rightarrow> int \<Rightarrow> string \<Rightarrow> pyexn + 'tok" where
  "generate_confirmation_token S cfg now e =
     (case config_get cfg ''SECRET_KEY'' of
        Inl ex \<Rightarrow> Inl ex
      | Inr key \<Rightarrow>
          (case config_get cfg ''SECURITY_PASSWORD_SALT'' of
             Inl ex \<Rightarrow> Inl ex
           | Inr salt \<Rightarrow> Inr (dumps S key salt now e)))"

text \<open>
  \<^verbatim>\<open>
  def confirm_token(token, expiration=3600):
      serializer = URLSafeTimedSerializer(app.config['SECRET_KEY'])
      try:
          email = serializer.loads(token, salt=app.config['SECURITY_PASSWORD_SALT'],
                                   max_age=expiration)
      except:
          return False
      return email
  \<close>
  The serializer is built outside the \<^verbatim>\<open>try\<close>: a missing secret key is the one exception
  that leaves the function. Everything raised inside the \<^verbatim>\<open>try\<close> (the salt lookup
  included) is caught by the bare \<^verbatim>\<open>except\<close>.
\<close>

definition confirm_token ::
  "'tok serializer \<Rightarrow> config \<Rightarrow> int \<Rightarrow> 'tok \<Rightarrow> int \<Rightarrow> pyexn + pyval" where
  "confirm_token S cfg now token expiration =
     (case config_get cfg ''SECRET_KEY'' of
        Inl ex \<Rightarrow> Inl ex
      | Inr key \<Rightarrow>
          (case config_get cfg ''SECURITY_PASSWORD_SALT'' of
             Inl ex \<Rightarrow> Inr (PBool False)
           | Inr salt \<Rightarrow>
               (case loads S key salt now token expiration of
                  Inl ex \<Rightarrow> Inr (PBool False)
                | Inr e \<Rightarrow> Inr (PStr e))))"

text \<open>The call \<^verbatim>\<open>confirm_token(token)\<close>, with the default of the parameter \<^verbatim>\<open>expiration\<close>.\<close>

definition confirm_token_default ::
  "'tok serializer \<Rightarrow> config \<Rightarrow> int \<Rightarrow> 'tok \<Rightarrow> pyexn + pyval" where
  "confirm_token_default S cfg now token = confirm_token S cfg now token 3600"

text \<open>
  Modelled from the spec: \<^verbatim>\<open>itsdangerous.URLSafeTimedSerializer\<close>, which is missing from the
  sources. The spec describes the token as a signed encoding of the email and the time of
  issue, valid only while the signature verifies against the secret and the salt and the
  age is within the window. A token is the payload, the time of issue and the signature; a
  string that does not parse is \<open>Garbled\<close>. The keyed signature function \<open>mac\<close> is a
  parameter.
\<close>

datatype token = Token string int string | Garbled string

definition timed_dumps ::
  "(string \<Rightarrow> string \<Rightarrow> string \<Rightarrow> int \<Rightarrow> string) \<Rightarrow> string \<Rightarrow> string \<Rightarrow> int \<Rightarrow> string \<Rightarrow> token" where
  "timed_dumps mac key salt now payload = Token payload now (mac key salt payload now)"

fun timed_loads ::
  "(string \<Rightarrow> string \<Rightarrow> string \<Rightarrow> int \<Rightarrow> string) \<Rightarrow> string \<Rightarrow> string \<Rightarrow> int \<Rightarrow> token \<Rightarrow> int
     \<Rightarrow> pyexn + string" where
  "timed_loads mac key salt now (Garbled s) max_age = Inl BadSignature"
| "timed_loads mac key salt now (Token payload issued sig) max_age =
     (if sig \<noteq> mac key salt payload issued then Inl BadSignature
      else if now - issued > max_age then Inl SignatureExpired
      else Inr payload)"

definition URLSafeTimedSerializer ::
  "(string \<Rightarrow> string \<Rightarrow> string \<Rightarrow> int \<Rightarrow> string) \<Rightarrow> token serializer" where
  "URLSafeTimedSerializer mac = \<lparr> dumps = timed_dumps mac, loads = timed_loads mac \<rparr>"

section \<open>The document store\<close>

text \<open>
  The database engine is used through \<^verbatim>\<open>pymongo\<close> as a black box. The model keeps what the
  two source files rely on: the documents of the user collection in insertion order,
  whether the unique index on \<^verbatim>\<open>email\<close> exists, how many \<^verbatim>\<open>create_index\<close> requests the
  collection has served, the counter behind generated identifiers, and a fault switch
  (\<open>Some code\<close>: every operation fails with \<^verbatim>\<open>OperationFailure(code)\<close>).
  A document without the indexed field is indexed under the missing value, as the store
  does. Uniqueness of \<^verbatim>\<open>_id\<close> is not modelled: generated identifiers are fresh.
\<close>

record collection =
  docs :: "pydict list"
  unique_email :: bool
  index_calls :: nat
  next_id :: nat
  fault :: "int option"

definition empty_collection :: collection where
  "empty_collection =
     \<lparr> docs = [], unique_email = False, index_calls = 0, next_id = 0, fault = None \<rparr>"

fun error_code :: "pymongo_error \<Rightarrow> int" where
  "error_code DuplicateKeyError = 11000"
| "error_code (OperationFailure n) = n"

fun error_details :: "pymongo_error \<Rightarrow> pyval" where
  "error_details DuplicateKeyError =
     PDict [(''code'', PInt 11000), (''errmsg'', PStr ''E11000 duplicate key error'')]"
| "error_details (OperationFailure n) = PDict [(''code'', PInt n)]"

definition email_keys :: "collection \<Rightarrow> pyval option list" where
  "email_keys c = map (\<lambda>d. map_of d ''email'') (docs c)"

text \<open>\<^verbatim>\<open>collection.create_index('email', unique=True)\<close>: idempotent once the index exists;
  building it over documents that already share an email fails.\<close>

definition create_index :: "collection \<Rightarrow> pyexn + collection" where
  "create_index c =
     (case fault c of
        Some n \<Rightarrow> Inl (PyMongoError (OperationFailure n))
      | None \<Rightarrow>
          if unique_email c then Inr (c\<lparr>index_calls := Suc (index_calls c)\<rparr>)
          else if distinct (email_keys c)
          then Inr (c\<lparr>unique_email := True, index_calls := Suc (index_calls c)\<rparr>)
          else Inl (PyMongoError DuplicateKeyError))"

record insert_result =
  acknowledged :: bool
  inserted_id :: pyval

text \<open>\<^verbatim>\<open>collection.insert_one(document)\<close>: rejected by the unique index when a stored
  document has the same email; otherwise stored, with a generated \<^verbatim>\<open>_id\<close> when the
  document brings none.\<close>

definition insert_one :: "collection \<Rightarrow> pydict \<Rightarrow> pyexn + (insert_result \<times> collection)" where
  "insert_one c d =
     (case fault c of
        Some n \<Rightarrow> Inl (PyMongoError (OperationFailure n))
      | None \<Rightarrow>
          if unique_email c \<and> map_of d ''email'' \<in> set (email_keys c)
          then Inl (PyMongoError DuplicateKeyError)
          else
            (case map_of d ''_id'' of
               Some i \<Rightarrow>
                 Inr (\<lparr> acknowledged = True, inserted_id = i \<rparr>, c\<lparr>docs := docs c @ [d]\<rparr>)
             | None \<Rightarrow>
                 Inr (\<lparr> acknowledged = True, inserted_id = PObjectId (next_id c) \<rparr>,
                      c\<lparr>docs := docs c @ [d @ [(''_id'', PObjectId (next_id c))]],
                        next_id := Suc (next_id c)\<rparr>)))"

text \<open>\<^verbatim>\<open>collection.find(seed, projection)\<close>, for an equality seed and a projection that
  excludes fields (the fields given a false value).\<close>

definition matches :: "pydict \<Rightarrow> pydict \<Rightarrow> bool" where
  "matches seed d = list_all (\<lambda>(k, v). map_of d k = Some v) seed"

definition project :: "pydict \<Rightarrow> pydict \<Rightarrow> pydict" where
  "project projection d =
     filter (\<lambda>(k, v). \<not> (case map_of projection k of Some p \<Rightarrow> \<not> truthy p | None \<Rightarrow> False)) d"

definition find :: "collection \<Rightarrow> pydict \<Rightarrow> pydict \<Rightarrow> pyexn + pydict list" where
  "find c seed projection =
     (case fault c of
        Some n \<Rightarrow> Inl (PyMongoError (OperationFailure n))
      | None \<Rightarrow> Inr (map (project projection) (filter (matches seed) (docs c))))"

definition drop_collection :: "collection \<Rightarrow> collection" where
  "drop_collection c = empty_collection\<lparr>next_id := next_id c, fault := fault c\<rparr>"

section \<open>The user model (\<^verbatim>\<open>user_model.py\<close>)\<close>

text \<open>
  \<^verbatim>\<open>
  def _cursor_helper(cursor):
      result = list()
      for cur in cursor:
          if cur.get("creation_timestamp"):
              cur["creation_timestamp"] = cur["creation_timestamp"].replace(
                  tzinfo=SimpleUtc()).isoformat()
          result.append(cur)
      return result
  \<close>
  A truthy \<^verbatim>\<open>creation_timestamp\<close> that is not a datetime has no such \<^verbatim>\<open>replace\<close>: a string
  refuses the keyword argument, the other values have no attribute of that name.
\<close>

definition fix_timestamp :: "pydict \<Rightarrow> pyexn + pydict" where
  "fix_timestamp cur =
     (case map_of cur ''creation_timestamp'' of
        None \<Rightarrow> Inr cur
      | Some v \<Rightarrow>
          if truthy v then
            (case v of
               PDatetime t \<Rightarrow> Inr (AList.update ''creation_timestamp'' (PStr (t @ ''+00:00'')) cur)
             | PStr s \<Rightarrow> Inl TypeError
             | _ \<Rightarrow> Inl AttributeError)
          else Inr cur)"

fun cursor_helper :: "pydict list \<Rightarrow> pyexn + pydict list" where
  "cursor_helper [] = Inr []"
| "cursor_helper (cur # cursor) =
     (case fix_timestamp cur of
        Inl ex \<Rightarrow> Inl ex
      | Inr cur' \<Rightarrow>
          (case cursor_helper cursor of
             Inl ex \<Rightarrow> Inl ex
           | Inr result \<Rightarrow> Inr (cur' # result)))"

text \<open>The attributes \<^verbatim>\<open>UserModel.__init__\<close> sets (lines 53 to 59).\<close>

record UserModel =
  db_ctx :: pyval
  email :: pyval
  password :: pyval
  is_authenticated :: pyval
  is_anonymous :: pyval
  is_active :: pyval
  details :: pydict

definition UserModel_init :: "pyval \<Rightarrow> pyval \<Rightarrow> pyval \<Rightarrow> pyval \<Rightarrow> pydict \<Rightarrow> UserModel" where
  "UserModel_init ctx e p auth kwargs =
     \<lparr> db_ctx = ctx, email = e, password = p, is_authenticated = auth,
       is_anonymous = PBool False, is_active = PBool True, details = kwargs \<rparr>"

text \<open>
  The call \<^verbatim>\<open>cls(db_instance, **document)\<close> of line 149: the keys \<^verbatim>\<open>email\<close> and \<^verbatim>\<open>password\<close>
  are required, \<^verbatim>\<open>is_authenticated\<close> is optional, a key \<^verbatim>\<open>db_ctx\<close> or \<^verbatim>\<open>self\<close> collides with
  a positional argument, and every other key goes to \<^verbatim>\<open>kwargs\<close>.
\<close>

definition UserModel_kwargs :: "pyval \<Rightarrow> pydict \<Rightarrow> pyexn + UserModel" where
  "UserModel_kwargs ctx kw =
     (if ''db_ctx'' \<in> set (map fst kw) \<or> ''self'' \<in> set (map fst kw) then Inl TypeError
      else
        (case map_of kw ''email'' of
           None \<Rightarrow> Inl TypeError
         | Some e \<Rightarrow>
             (case map_of kw ''password'' of
                None \<Rightarrow> Inl TypeError
              | Some p \<Rightarrow>
                  Inr (UserModel_init ctx e p
                        (case map_of kw ''is_authenticated'' of None \<Rightarrow> PBool False | Some a \<Rightarrow> a)
                        (filter (\<lambda>(k, v). k \<noteq> ''email'' \<and> k \<noteq> ''password''
                                   \<and> k \<noteq> ''is_authenticated'') kw)))))"

definition get_id :: "UserModel \<Rightarrow> pyval" where
  "get_id self = email self"

text \<open>\<^verbatim>\<open>vars(self)\<close>: the attribute dictionary of a user object.\<close>

definition vars_of :: "UserModel \<Rightarrow> pydict" where
  "vars_of self =
     [(''db_ctx'', db_ctx self), (''email'', email self), (''password'', password self),
      (''is_authenticated'', is_authenticated self), (''is_anonymous'', is_anonymous self),
      (''is_active'', is_active self), (''details'', PDict (details self))]"

text \<open>
  \<^verbatim>\<open>
  def _to_dict(self):
      attributes = vars(self)
      attributes.pop('db_ctx')
      for detail in attributes['details']:
          attributes[detail] = attributes['details'][detail]
      del attributes['details']
      return attributes
  \<close>
  The loop runs over the keys of the dictionary that \<^verbatim>\<open>attributes['details']\<close> held when it
  started, and reads \<^verbatim>\<open>attributes['details']\<close> again at every step. (In the source
  \<^verbatim>\<open>attributes\<close> is the object's own dictionary, so the object is changed too; every caller
  drops the object after \<^verbatim>\<open>submit\<close>.)
\<close>

fun flatten_details :: "string list \<Rightarrow> pydict \<Rightarrow> pyexn + pydict" where
  "flatten_details [] attributes = Inr attributes"
| "flatten_details (detail # rest) attributes =
     (case map_of attributes ''details'' of
        None \<Rightarrow> Inl (KeyError ''details'')
      | Some (PDict d) \<Rightarrow>
          (case map_of d detail of
             None \<Rightarrow> Inl (KeyError detail)
           | Some v \<Rightarrow> flatten_details rest (AList.update detail v attributes))
      | Some _ \<Rightarrow> Inl TypeError)"

definition to_dict :: "UserModel \<Rightarrow> pyexn + pydict" where
  "to_dict self =
     (let attributes = AList.delete ''db_ctx'' (vars_of self) in
      case flatten_details (map fst (details self)) attributes of
        Inl ex \<Rightarrow> Inl ex
      | Inr attributes' \<Rightarrow>
          if ''details'' \<in> set (map fst attributes')
          then Inr (AList.delete ''details'' attributes')
          else Inl (KeyError ''details''))"

text \<open>
  \<^verbatim>\<open>MongoReturn\<close> comes from a package outside the repository. Its fields are the ones the
  sources assign; the initial values are the ones the sources and their tests rely on
  (\<^verbatim>\<open>test_insert\<close> reads \<^verbatim>\<open>count == 0\<close> from a result whose count was never assigned).
\<close>

datatype documents_value = NoDocuments | UserDocument UserModel | ErrorDetails pyval

record MongoReturn =
  success :: bool
  count :: nat
  message :: pyval
  code :: "int option"
  documents :: documents_value
  db_exception :: "pymongo_error option"

definition MongoReturn_init :: MongoReturn where
  "MongoReturn_init =
     \<lparr> success = False, count = 0, message = PStr [], code = None,
       documents = NoDocuments, db_exception = None \<rparr>"

text \<open>The process state: the class attribute \<^verbatim>\<open>UserModel.created_index\<close> (line 31) and the
  user collection of the database.\<close>

record world =
  created_index :: bool
  users :: collection

definition initial_world :: world where
  "initial_world = \<lparr> created_index = False, users = empty_collection \<rparr>"

text \<open>
  \<^verbatim>\<open>
  def submit(self):
      user_collection = self.db_ctx.get_collection(USER_COLLECTION_NAME)
      if not type(self).created_index:
          user_collection.create_index('email', unique=True)
      return_obj = MongoReturn()
      try:
          result = user_collection.insert_one(self._to_dict())
          if result.acknowledged and result.inserted_id:
              return_obj.success = True
              return_obj.count = 1
              return_obj.message = 'Document inserted successfully'
          else:
              return_obj.success = False
              return_obj.message = "Failed to insert document"
          return return_obj
      except pymongo.errors.PyMongoError as error:
          return_obj.success = False
          return_obj.code = error.code
          return_obj.message = error.details
          return_obj.db_exception = error
          return return_obj
  \<close>
  The result is the returned object or the exception that leaves the method, together
  with the state the call leaves behind.
\<close>

definition submit :: "UserModel \<Rightarrow> world \<Rightarrow> (pyexn + MongoReturn) \<times> world" where
  "submit self w =
     (case (if \<not> created_index w then create_index (users w) else Inr (users w)) of
        Inl ex \<Rightarrow> (Inl ex, w)
      | Inr user_collection \<Rightarrow>
          (let w1 = w\<lparr>users := user_collection\<rparr>; return_obj = MongoReturn_init in
           case to_dict self of
             Inl ex \<Rightarrow> (Inl ex, w1)
           | Inr d \<Rightarrow>
               (case insert_one user_collection d of
                  Inl (PyMongoError error) \<Rightarrow>
                    (Inr (return_obj\<lparr>success := False, code := Some (error_code error),
                            message := error_details error, db_exception := Some error\<rparr>), w1)
                | Inl ex \<Rightarrow> (Inl ex, w1)
                | Inr (result, c2) \<Rightarrow>
                    (Inr (if acknowledged result \<and> truthy (inserted_id result)
                          then return_obj\<lparr>success := True, count := 1,
                                 message := PStr ''Document inserted successfully''\<rparr>
                          else return_obj\<lparr>success := False,
                                 message := PStr ''Failed to insert document''\<rparr>),
                     w\<lparr>users := c2\<rparr>))))"

text \<open>
  \<^verbatim>\<open>
  def select_by_email(cls, db_instance, email):
      user_collection = db_instance.get_collection(USER_COLLECTION_NAME)
      seed = dict(email=email)
      projection = dict(_id=False)
      mongo_return = MongoReturn()
      try:
          cursor = user_collection.find(seed, projection)
          result = _cursor_helper(cursor)
          assert len(result) == 1 or len(result) == 0
          mongo_return.success = True
          if len(result):
              mongo_return.documents = cls(db_instance, **result[0])  # email is unique index
              mongo_return.documents.is_authenticated = True
          mongo_return.count = len(result)
          return mongo_return
      except pymongo.errors.PyMongoError as error:
          mongo_return.success = False
          mongo_return.documents = error.details
          mongo_return.code = error.code
          return mongo_return
  \<close>
  Only a driver error is caught; a failed assertion and the errors of the helper and of
  the constructor leave the method.
\<close>

definition select_by_email :: "collection \<Rightarrow> string \<Rightarrow> pyexn + MongoReturn" where
  "select_by_email user_collection e =
     (let seed = [(''email'', PStr e)];
          projection = [(''_id'', PBool False)];
          mongo_return = MongoReturn_init in
      case find user_collection seed projection of
        Inl (PyMongoError error) \<Rightarrow>
          Inr (mongo_return\<lparr>success := False, documents := ErrorDetails (error_details error),
                 code := Some (error_code error)\<rparr>)
      | Inl ex \<Rightarrow> Inl ex
      | Inr cursor \<Rightarrow>
          (case cursor_helper cursor of
             Inl ex \<Rightarrow> Inl ex
           | Inr result \<Rightarrow>
               if \<not> (length result = 1 \<or> length result = 0) then Inl AssertionError
               else if length result \<noteq> 0 then
                 (case UserModel_kwargs PDbCtx (hd result) of
                    Inl ex \<Rightarrow> Inl ex
                  | Inr user \<Rightarrow>
                      Inr (mongo_return\<lparr>success := True,
                             documents := UserDocument (user\<lparr>is_authenticated := PBool True\<rparr>),
                             count := length result\<rparr>))
               else Inr (mongo_return\<lparr>success := True, count := length result\<rparr>)))"

section \<open>Forms and views (\<^verbatim>\<open>user.py\<close>)\<close>

text \<open>
  The libraries the views call are parameters: the \<^verbatim>\<open>Email\<close> validator of the form
  library, the two functions of the password-hashing library (the hash function returns
  the digest, a byte string, or raises on a password it refuses; the check returns a
  truth value or raises on a stored value it cannot read), and the interpreter's \<^verbatim>\<open>str\<close> on the byte string the hash function returns
  (\<^verbatim>\<open>register\<close> stores \<^verbatim>\<open>str(bcrypt.generate_password_hash(...))\<close>).
\<close>

record libs =
  email_validator :: "string \<Rightarrow> bool"
  generate_password_hash :: "string \<Rightarrow> pyexn + string"
  str_of_bytes :: "string \<Rightarrow> string"
  check_password_hash :: "pyval \<Rightarrow> string \<Rightarrow> pyexn + bool"





datatype http_method = GET | POST

record request =
  request_method :: http_method
  form :: "(string \<times> string) list"

text \<open>A form field: the submitted text (empty when the request has no such field) and the
  error messages validation attached to it.\<close>

record field =
  data :: string
  errors :: "string list"

definition bind_field :: "(string \<times> string) list \<Rightarrow> string \<Rightarrow> field" where
  "bind_field formdata name =
     \<lparr> data = (case map_of formdata name of None \<Rightarrow> [] | Some v \<Rightarrow> v), errors = [] \<rparr>"

text \<open>
  The validators of the form library, as the declarations of lines 41 to 54 and 72 to 73
  use them. \<^verbatim>\<open>DataRequired\<close> rejects a text that \<^verbatim>\<open>str.strip()\<close> leaves empty and stops
  the chain of its field; the others add their message and let the chain go on.

  A character of a submitted text stands for the Unicode code point of the same number
  (the texts of the model are those below U+0100). \<open>is_space\<close> holds of the code points
  \<^verbatim>\<open>str.strip()\<close> removes: tab to carriage return, the four separators U+001C to
  U+001F, the space, U+0085 and U+00A0.
\<close>

datatype verdict = Pass | Fail string | Stop string

fun run_chain :: "verdict list \<Rightarrow> string list" where
  "run_chain [] = []"
| "run_chain (Pass # vs) = run_chain vs"
| "run_chain (Fail m # vs) = m # run_chain vs"
| "run_chain (Stop m # vs) = [m]"

definition is_space :: "char \<Rightarrow> bool" where
  "is_space ch =
     ((of_char ch :: nat) \<in> set [0x09, 0x0A, 0x0B, 0x0C, 0x0D, 0x1C, 0x1D, 0x1E, 0x1F, 0x20,
                                   0x85, 0xA0])"

definition DataRequired :: "string \<Rightarrow> verdict" where
  "DataRequired d = (if list_all is_space d then Stop ''This field is required.'' else Pass)"

definition Email :: "libs \<Rightarrow> string \<Rightarrow> verdict" where
  "Email L d = (if email_validator L d then Pass else Fail ''Invalid email address.'')"

definition Length :: "nat \<Rightarrow> nat \<Rightarrow> string \<Rightarrow> string \<Rightarrow> verdict" where
  "Length lo hi msg d = (if length d < lo \<or> length d > hi then Fail msg else Pass)"

definition EqualTo :: "string \<Rightarrow> string \<Rightarrow> string \<Rightarrow> verdict" where
  "EqualTo other msg d = (if d \<noteq> other then Fail msg else Pass)"

record RegistrationForm =
  reg_email :: field
  reg_password :: field
  reg_confirm :: field

definition RegistrationForm_init :: "(string \<times> string) list \<Rightarrow> RegistrationForm" where
  "RegistrationForm_init formdata =
     \<lparr> reg_email = bind_field formdata ''email'',
       reg_password = bind_field formdata ''password'',
       reg_confirm = bind_field formdata ''confirm'' \<rparr>"

text \<open>\<^verbatim>\<open>super(RegistrationForm, self).validate()\<close>: every field runs its validators.\<close>

definition Form_validate :: "libs \<Rightarrow> RegistrationForm \<Rightarrow> bool \<times> RegistrationForm" where
  "Form_validate L self =
     (let e = data (reg_email self); p = data (reg_password self); c = data (reg_confirm self);
          e_errors = run_chain [DataRequired e, Email L e, Length 6 40 ''Field must be between 6 and 40 characters long.'' e];
          p_errors = run_chain [DataRequired p, Length 6 25 ''Field must be between 6 and 25 characters long.'' p];
          c_errors = run_chain [DataRequired c, EqualTo p ''Passwords must match.'' c]
      in (e_errors = [] \<and> p_errors = [] \<and> c_errors = [],
          self\<lparr>reg_email := (reg_email self)\<lparr>errors := e_errors\<rparr>,
               reg_password := (reg_password self)\<lparr>errors := p_errors\<rparr>,
               reg_confirm := (reg_confirm self)\<lparr>errors := c_errors\<rparr>\<rparr>))"

text \<open>
  Modelled from the spec: the constant \<^verbatim>\<open>EXISTING_EMAIL_CODE_ERR\<close> of \<^verbatim>\<open>config.py\<close>, which is
  missing from the sources. The spec calls it the hardcoded duplicate-key constant, and
  \<^verbatim>\<open>test_insert\<close> requires the code of a rejected duplicate insert to equal it.
\<close>

definition EXISTING_EMAIL_CODE_ERR :: int where
  "EXISTING_EMAIL_CODE_ERR = 11000"

text \<open>
  \<^verbatim>\<open>
  def validate(self):
      initial_validation = super(RegistrationForm, self).validate()
      if not initial_validation:
          return False
      with db.connect(DEV_DB_NAME) as db_instance:
          result = UserModel.select_by_email(db_instance, self.email.data)
      if not result.success:
          if result.code == EXISTING_EMAIL_CODE_ERR:
              self.email.errors.append("Email already registered")
          return False
      return True
  \<close>
\<close>

definition validate :: "libs \<Rightarrow> world \<Rightarrow> RegistrationForm \<Rightarrow> pyexn + (bool \<times> RegistrationForm)" where
  "validate L w self0 =
     (let (initial_validation, self) = Form_validate L self0 in
      if \<not> initial_validation then Inr (False, self)
      else
        (case select_by_email (users w) (data (reg_email self)) of
           Inl ex \<Rightarrow> Inl ex
         | Inr result \<Rightarrow>
             if \<not> success result then
               (if code result = Some EXISTING_EMAIL_CODE_ERR
                then Inr (False, self\<lparr>reg_email := (reg_email self)
                            \<lparr>errors := errors (reg_email self) @ [''Email already registered'']\<rparr>\<rparr>)
                else Inr (False, self))
             else Inr (True, self)))"

text \<open>\<^verbatim>\<open>form.validate_on_submit()\<close>: the request is a submission (the routes accept
  \<^verbatim>\<open>GET\<close> and \<^verbatim>\<open>POST\<close>) and the form validates. A view runs only on a request that
  the request-forgery protection (\<^verbatim>\<open>CSRFProtect(app)\<close>, which the spec leaves to the
  framework) has let through, so its token is not part of the form data of the model.\<close>

definition validate_on_submit ::
  "libs \<Rightarrow> request \<Rightarrow> world \<Rightarrow> RegistrationForm \<Rightarrow> pyexn + (bool \<times> RegistrationForm)" where
  "validate_on_submit L req w self =
     (if request_method req = POST then validate L w self else Inr (False, self))"

record LoginForm =
  login_email :: field
  login_password :: field

definition LoginForm_init :: "(string \<times> string) list \<Rightarrow> LoginForm" where
  "LoginForm_init formdata =
     \<lparr> login_email = bind_field formdata ''email'',
       login_password = bind_field formdata ''password'' \<rparr>"

definition LoginForm_validate :: "libs \<Rightarrow> LoginForm \<Rightarrow> bool \<times> LoginForm" where
  "LoginForm_validate L self =
     (let e = data (login_email self); p = data (login_password self);
          e_errors = run_chain [DataRequired e, Email L e];
          p_errors = run_chain [DataRequired p]
      in (e_errors = [] \<and> p_errors = [],
          self\<lparr>login_email := (login_email self)\<lparr>errors := e_errors\<rparr>,
               login_password := (login_password self)\<lparr>errors := p_errors\<rparr>\<rparr>))"

definition LoginForm_validate_on_submit :: "libs \<Rightarrow> request \<Rightarrow> LoginForm \<Rightarrow> bool \<times> LoginForm" where
  "LoginForm_validate_on_submit L req self =
     (if request_method req = POST then LoginForm_validate L self else (False, self))"

text \<open>
  What a view hands back: the messages it flashed (text and category), the page (a
  redirect to an endpoint, or a template rendered with the errors of the form's fields),
  the identity \<^verbatim>\<open>login_user\<close> bound to the session, and what it printed.
\<close>

datatype page = Redirect string | Render string "(string \<times> string list) list"

record response =
  flashes :: "(string \<times> string) list"
  page :: page
  session_user :: "pyval option"
  printed :: "string list"

definition registration_errors :: "RegistrationForm \<Rightarrow> (string \<times> string list) list" where
  "registration_errors f =
     [(''email'', errors (reg_email f)), (''password'', errors (reg_password f)),
      (''confirm'', errors (reg_confirm f))]"

definition login_errors :: "LoginForm \<Rightarrow> (string \<times> string list) list" where
  "login_errors f =
     [(''email'', errors (login_email f)), (''password'', errors (login_password f))]"

text \<open>
  \<^verbatim>\<open>
  def register():
      form = RegistrationForm(request.form)
      if form.validate_on_submit():
          email = str(form.email.data)
          password = str(bcrypt.generate_password_hash(form.password.data))
          user_details = dict(confirmed=False)
          with db.connect(DEV_DB_NAME) as db_instance:
              user = UserModel(db_instance, email, password, **user_details)
              user.submit()
          # TODO: email generation
          token = generate_confirmation_token(email)
          flash('A confirmation email has been sent via email.', 'success')
          return redirect(url_for('main_bp.home'))
      print('password incorrect')
      return render_template('registration.html', form=form)
  \<close>
  The object \<^verbatim>\<open>submit\<close> returns is dropped, and so is the token.
\<close>

definition register ::
  "libs \<Rightarrow> 'tok serializer \<Rightarrow> config \<Rightarrow> int \<Rightarrow> request \<Rightarrow> world \<Rightarrow> (pyexn + response) \<times> world" where
  "register L S cfg now req w =
     (case validate_on_submit L req w (RegistrationForm_init (form req)) of
        Inl ex \<Rightarrow> (Inl ex, w)
      | Inr (ok, form') \<Rightarrow>
          if ok then
            (let e = data (reg_email form') in
             case generate_password_hash L (data (reg_password form')) of
               Inl ex \<Rightarrow> (Inl ex, w)
             | Inr digest \<Rightarrow>
                 (let pw = str_of_bytes L digest;
                      user_details = [(''confirmed'', PBool False)];
                      user = UserModel_init PDbCtx (PStr e) (PStr pw) (PBool False) user_details
                  in case submit user w of
                       (Inl ex, w') \<Rightarrow> (Inl ex, w')
                     | (Inr return_obj, w') \<Rightarrow>
                         (case generate_confirmation_token S cfg now e of
                            Inl ex \<Rightarrow> (Inl ex, w')
                          | Inr token \<Rightarrow>
                              (Inr \<lparr> flashes =
                                       [(''A confirmation email has been sent via email.'',
                                         ''success'')],
                                     page = Redirect ''main_bp.home'',
                                     session_user = None, printed = [] \<rparr>, w'))))
          else
            (Inr \<lparr> flashes = [], page = Render ''registration.html'' (registration_errors form'),
                   session_user = None, printed = [''password incorrect''] \<rparr>, w))"

text \<open>
  \<^verbatim>\<open>
  def login():
      form = LoginForm(request.form)
      if form.validate_on_submit():
          with db.connect(DEV_DB_NAME) as db_instance:
              result = UserModel.select_by_email(db_instance, str(form.email.data))
          if result.count:
              user = result.documents
              # FIXME (Alena): correct hashing and verifying
              if bcrypt.check_password_hash(user.password, request.form['password']):
                  login_user(user)
                  flash('Welcome.', 'success')
                  return redirect(url_for('main_bp.home'))
          else:
              flash('Invalid email and/or password.', 'danger')
              return render_template('login.html', form=form)
      return render_template('login.html', form=form)
  \<close>
  The \<^verbatim>\<open>else\<close> belongs to \<^verbatim>\<open>if result.count\<close>: a found user whose password check fails
  falls through to the last line.
\<close>

definition login :: "libs \<Rightarrow> request \<Rightarrow> world \<Rightarrow> pyexn + response" where
  "login L req w =
     (let (ok, form') = LoginForm_validate_on_submit L req (LoginForm_init (form req)) in
      if ok then
        (case select_by_email (users w) (data (login_email form')) of
           Inl ex \<Rightarrow> Inl ex
         | Inr result \<Rightarrow>
             if count result \<noteq> 0 then
               (case documents result of
                  UserDocument user \<Rightarrow>
                    (case map_of (form req) ''password'' of
                       None \<Rightarrow> Inl (KeyError ''password'')
                     | Some pw \<Rightarrow>
                         (case check_password_hash L (password user) pw of
                            Inl ex \<Rightarrow> Inl ex
                          | Inr True \<Rightarrow>
                              Inr \<lparr> flashes = [(''Welcome.'', ''success'')],
                                    page = Redirect ''main_bp.home'',
                                    session_user = Some (get_id user), printed = [] \<rparr>
                          | Inr False \<Rightarrow>
                              Inr \<lparr> flashes = [],
                                    page = Render ''login.html'' (login_errors form'),
                                    session_user = None, printed = [] \<rparr>))
                | _ \<Rightarrow> Inl AttributeError)
             else
               Inr \<lparr> flashes = [(''Invalid email and/or password.'', ''danger'')],
                     page = Render ''login.html'' (login_errors form'),
                     session_user = None, printed = [] \<rparr>)
      else
        Inr \<lparr> flashes = [], page = Render ''login.html'' (login_errors form'),
              session_user = None, printed = [] \<rparr>)"

section \<open>Reachable states\<close>

text \<open>
  The states of a process that starts with an empty database and the class attribute as
  line 31 sets it, and then submits user objects; the store may start or stop failing,
  and the collection may be dropped (as the tests' \<^verbatim>\<open>tearDown\<close> does).
\<close>

inductive reachable :: "world \<Rightarrow> bool" where
  initial: "reachable initial_world"
| after_submit: "reachable w \<Longrightarrow> reachable (snd (submit self w))"
| after_fault: "reachable w \<Longrightarrow> reachable (w\<lparr>users := (users w)\<lparr>fault := f\<rparr>\<rparr>)"
| after_drop: "reachable w \<Longrightarrow> reachable (w\<lparr>users := drop_collection (users w)\<rparr>)"

text \<open>
  The invariant of the reachable states: the class attribute is still false, a collection
  that holds a document has the unique index, and no two documents share an email.
\<close>

definition store_inv :: "world \<Rightarrow> bool" where
  "store_inv w =
     (\<not> created_index w \<and> (docs (users w) = [] \<or> unique_email (users w))
      \<and> distinct (email_keys (users w)))"

text \<open>The dictionary \<^verbatim>\<open>_to_dict\<close> returns for the user object \<^verbatim>\<open>register\<close> builds from an
  email and a stored password.\<close>

definition registered_doc :: "string \<Rightarrow> string \<Rightarrow> pydict" where
  "registered_doc e h =
     [(''email'', PStr e), (''password'', PStr h), (''is_authenticated'', PBool False),
      (''is_anonymous'', PBool False), (''is_active'', PBool True),
      (''confirmed'', PBool False)]"

section \<open>A concrete instance for running the views\<close>

text \<open>
  Stand-ins for the libraries, the configuration and the requests of the scenario of the
  spec (section 8), used only to evaluate the views at concrete inputs: the validator
  asks for an \<open>@\<close>, the hash of a password is a fixed 29-character prefix followed by
  the password, \<^verbatim>\<open>str\<close> returns its argument, and the check recomputes the hash.
\<close>

definition demo_libs :: libs where
  "demo_libs =
     \<lparr> email_validator = (\<lambda>s. CHR ''@'' \<in> set s),
       generate_password_hash = (\<lambda>p. Inr (''$2b$12$abcdefghijklmnopqrstuv'' @ p)),
       str_of_bytes = (\<lambda>b. b),
       check_password_hash =
         (\<lambda>h p. case h of PStr s \<Rightarrow> Inr (s = ''$2b$12$abcdefghijklmnopqrstuv'' @ p)
                  | _ \<Rightarrow> Inl TypeError) \<rparr>"


definition demo_mac :: "string \<Rightarrow> string \<Rightarrow> string \<Rightarrow> int \<Rightarrow> string" where
  "demo_mac key salt payload issued = key @ salt @ payload"

definition demo_config :: config where
  "demo_config = [(''SECRET_KEY'', ''test_key''), (''SECURITY_PASSWORD_SALT'', ''test_salt'')]"

definition alice_registers :: request where
  "alice_registers =
     \<lparr> request_method = POST,
       form = [(''email'', ''alice@example.com''), (''password'', ''secret1''),
               (''confirm'', ''secret1'')] \<rparr>"

definition alice_logs_in :: "string \<Rightarrow> request" where
  "alice_logs_in pw =
     \<lparr> request_method = POST, form = [(''email'', ''alice@example.com''), (''password'', pw)] \<rparr>"

definition bob_logs_in :: "string \<Rightarrow> request" where
  "bob_logs_in pw =
     \<lparr> request_method = POST, form = [(''email'', ''bob@example.com''), (''password'', pw)] \<rparr>"

text \<open>The user objects \<^verbatim>\<open>register\<close> builds for the two accounts of the scenario.\<close>

definition alice_user :: UserModel where
  "alice_user =
     UserModel_init PDbCtx (PStr ''alice@example.com'')
       (PStr ''$2b$12$abcdefghijklmnopqrstuvsecret1'') (PBool False)
       [(''confirmed'', PBool False)]"

definition bob_user :: UserModel where
  "bob_user =
     UserModel_init PDbCtx (PStr ''bob@example.com'')
       (PStr ''$2b$12$abcdefghijklmnopqrstuvhunter22'') (PBool False)
       [(''confirmed'', PBool False)]"

text \<open>The state after the first registration of the scenario.\<close>

definition alice_world :: world where
  "alice_world =
     snd (register demo_libs (URLSafeTimedSerializer demo_mac) demo_config 0
            alice_registers initial_world)"

section \<open>Properties of the token service\<close>

text \<open>
  C4. A confirmation token issued for an email with a configured secret and salt, and
  checked with the same configuration no later than \<open>expiration\<close> seconds after its
  issue, validates and yields exactly that email. (The serializer is the one modelled
  from the spec.)
\<close>

theorem token_round_trip:
  assumes "map_of cfg ''SECRET_KEY'' = Some key"
    and "map_of cfg ''SECURITY_PASSWORD_SALT'' = Some salt"
    and "now - issued \<le> expiration"
  shows "\<exists>tok. generate_confirmation_token (URLSafeTimedSerializer mac) cfg issued e = Inr tok
           \<and> confirm_token (URLSafeTimedSerializer mac) cfg now tok expiration = Inr (PStr e)"
  using assms
  by (simp add: generate_confirmation_token_def confirm_token_def config_get_def
      URLSafeTimedSerializer_def timed_dumps_def)

theorem token_round_trip_witness:
  "\<exists>tok. generate_confirmation_token (URLSafeTimedSerializer demo_mac) demo_config 100
            ''a@b.com'' = Inr tok
     \<and> confirm_token (URLSafeTimedSerializer demo_mac) demo_config 3700 tok 3600
         = Inr (PStr ''a@b.com'')"
  using token_round_trip [of demo_config "''test_key''" "''test_salt''" 3700 100 3600
      demo_mac "''a@b.com''"]
  by (simp add: demo_config_def)

text \<open>
  C5. With the secret key configured, \<^verbatim>\<open>confirm_token\<close> returns a value for every token
  and every serializer behaviour; whenever the salt is missing or \<open>loads\<close> raises (a
  malformed, tampered or expired token), the value is \<^verbatim>\<open>False\<close>; and a call without
  \<^verbatim>\<open>expiration\<close> checks the token against a window of 3600 seconds.
\<close>

theorem confirm_token_reports_failure:
  assumes "map_of cfg ''SECRET_KEY'' = Some key"
  shows "(\<exists>v. confirm_token S cfg now tok n = Inr v)
       \<and> (map_of cfg ''SECURITY_PASSWORD_SALT'' = None \<longrightarrow>
            confirm_token S cfg now tok n = Inr (PBool False))
       \<and> (\<forall>salt ex. map_of cfg ''SECURITY_PASSWORD_SALT'' = Some salt
            \<longrightarrow> loads S key salt now tok n = Inl ex
            \<longrightarrow> confirm_token S cfg now tok n = Inr (PBool False))
       \<and> confirm_token_default S cfg now tok = confirm_token S cfg now tok 3600"
  using assms
  by (auto simp add: confirm_token_def confirm_token_default_def config_get_def
      split: sum.splits option.splits)

theorem confirm_token_reports_failure_witness:
  "confirm_token (URLSafeTimedSerializer demo_mac) demo_config 3701
       (Token ''a@b.com'' 100 ''test_keytest_salta@b.com'') 3600 = Inr (PBool False)
   \<and> confirm_token (URLSafeTimedSerializer demo_mac) demo_config 200
       (Token ''a@b.com'' 100 ''forged'') 3600 = Inr (PBool False)
   \<and> confirm_token (URLSafeTimedSerializer demo_mac) demo_config 200
       (Garbled ''xyz'') 3600 = Inr (PBool False)
   \<and> confirm_token_default (URLSafeTimedSerializer demo_mac) demo_config 3701
       (Token ''a@b.com'' 100 ''test_keytest_salta@b.com'') = Inr (PBool False)"
proof -
  have k: "map_of demo_config ''SECRET_KEY'' = Some ''test_key''"
    and s: "map_of demo_config ''SECURITY_PASSWORD_SALT'' = Some ''test_salt''"
    by (simp_all add: demo_config_def)
  have 1: "loads (URLSafeTimedSerializer demo_mac) ''test_key'' ''test_salt'' 3701
         (Token ''a@b.com'' 100 ''test_keytest_salta@b.com'') 3600 = Inl SignatureExpired"
    by (simp add: URLSafeTimedSerializer_def demo_mac_def)
  have 2: "loads (URLSafeTimedSerializer demo_mac) ''test_key'' ''test_salt'' 200
         (Token ''a@b.com'' 100 ''forged'') 3600 = Inl BadSignature"
    by (simp add: URLSafeTimedSerializer_def demo_mac_def)
  have 3: "loads (URLSafeTimedSerializer demo_mac) ''test_key'' ''test_salt'' 200
         (Garbled ''xyz'') 3600 = Inl BadSignature"
    by (simp add: URLSafeTimedSerializer_def)
  show ?thesis
    using confirm_token_reports_failure [OF k, of "URLSafeTimedSerializer demo_mac" 3701
        "Token ''a@b.com'' 100 ''test_keytest_salta@b.com''" 3600]
      confirm_token_reports_failure [OF k, of "URLSafeTimedSerializer demo_mac" 200
        "Token ''a@b.com'' 100 ''forged''" 3600]
      confirm_token_reports_failure [OF k, of "URLSafeTimedSerializer demo_mac" 200
        "Garbled ''xyz''" 3600]
      s 1 2 3
    by simp
qed

section \<open>The invariant of the store\<close>

lemma map_add_id [simp]:
  "k \<noteq> ''_id'' \<Longrightarrow> ([''_id'' \<mapsto> v] ++ m) k = m k"
  by (simp add: map_add_def split: option.splits)

lemma email_keys_append [simp]:
  "email_keys (c\<lparr>docs := docs c @ [d]\<rparr>) = email_keys c @ [map_of d ''email'']"
  by (simp add: email_keys_def)

lemma email_keys_other_fields [simp]:
  "email_keys (c\<lparr>index_calls := n\<rparr>) = email_keys c"
  "email_keys (c\<lparr>unique_email := b\<rparr>) = email_keys c"
  "email_keys (c\<lparr>next_id := m\<rparr>) = email_keys c"
  "email_keys (c\<lparr>fault := f\<rparr>) = email_keys c"
  by (simp_all add: email_keys_def)

lemma create_index_Inr:
  "create_index c = Inr c' \<Longrightarrow>
     docs c' = docs c \<and> fault c' = fault c \<and> next_id c' = next_id c \<and> unique_email c'
     \<and> index_calls c' = Suc (index_calls c) \<and> fault c = None
     \<and> (unique_email c \<or> distinct (email_keys c))"
  by (auto simp: create_index_def split: option.splits if_splits)

lemma create_index_inv:
  "create_index c = Inr c' \<Longrightarrow> distinct (email_keys c) \<Longrightarrow>
     unique_email c' \<and> distinct (email_keys c')"
  by (auto simp: create_index_def split: option.splits if_splits)

lemma insert_one_inv:
  "insert_one c d = Inr (res, c') \<Longrightarrow> unique_email c \<Longrightarrow> distinct (email_keys c) \<Longrightarrow>
     unique_email c' \<and> distinct (email_keys c')"
  by (auto simp: insert_one_def split: option.splits if_splits)

lemma submit_preserves_inv: "store_inv w \<Longrightarrow> store_inv (snd (submit self w))"
  unfolding store_inv_def submit_def
  by (auto simp: Let_def split: sum.splits pyexn.splits prod.splits
      dest!: create_index_inv insert_one_inv)

lemma reachable_inv: "reachable w \<Longrightarrow> store_inv w"
proof (induction rule: reachable.induct)
  case initial
  show ?case by (simp add: store_inv_def initial_world_def empty_collection_def email_keys_def)
next
  case (after_submit w self)
  from after_submit.IH show ?case by (rule submit_preserves_inv)
next
  case (after_fault w f)
  then show ?case by (simp add: store_inv_def)
next
  case (after_drop w)
  then show ?case
    by (simp add: store_inv_def drop_collection_def empty_collection_def email_keys_def)
qed

lemma distinct_filter_le_one:
  "distinct (map f xs) \<Longrightarrow> length (filter (\<lambda>x. f x = a) xs) \<le> Suc 0"
proof (induction xs)
  case Nil
  show ?case by simp
next
  case (Cons x xs)
  show ?case
  proof (cases "f x = a")
    case True
    from Cons.prems have "f x \<notin> f ` set xs" by simp
    with True have "\<forall>y\<in>set xs. f y \<noteq> a" by blast
    then have "filter (\<lambda>x. f x = a) xs = []" by (simp add: filter_empty_conv)
    with True show ?thesis by simp
  next
    case False
    with Cons show ?thesis by simp
  qed
qed

section \<open>Lookup by email\<close>

lemma matches_email [simp]:
  "matches [(''email'', v)] = (\<lambda>d. map_of d ''email'' = Some v)"
  by (rule ext) (simp add: matches_def)

lemma cursor_helper_length: "cursor_helper xs = Inr ys \<Longrightarrow> length ys = length xs"
  by (induction xs arbitrary: ys) (auto split: sum.splits)

lemma find_length:
  "find c [(''email'', PStr e)] p = Inr cur \<Longrightarrow>
     length cur = length (filter (\<lambda>d. map_of d ''email'' = Some (PStr e)) (docs c))"
  by (auto simp: find_def split: option.splits)

lemma select_by_email_count:
  "select_by_email c e = Inr r \<Longrightarrow> count r \<le> 1"
  by (auto simp: select_by_email_def Let_def MongoReturn_init_def
      split: sum.splits pyexn.splits if_splits)

lemma fix_timestamp_no_assertion: "fix_timestamp d \<noteq> Inl AssertionError"
  by (auto simp: fix_timestamp_def split: option.splits pyval.splits)

lemma cursor_helper_no_assertion: "cursor_helper xs \<noteq> Inl AssertionError"
  by (induction xs) (auto simp: fix_timestamp_no_assertion split: sum.splits)

lemma find_no_assertion: "find c seed p \<noteq> Inl AssertionError"
  by (auto simp: find_def split: option.splits)

lemma UserModel_kwargs_no_assertion: "UserModel_kwargs ctx kw \<noteq> Inl AssertionError"
  by (auto simp: UserModel_kwargs_def split: option.splits)

lemma select_by_email_no_assertion:
  assumes "distinct (email_keys c)"
  shows "select_by_email c e \<noteq> Inl AssertionError"
proof (cases "find c [(''email'', PStr e)] [(''_id'', PBool False)]")
  case (Inl ex)
  with find_no_assertion [of c "[(''email'', PStr e)]" "[(''_id'', PBool False)]"]
  show ?thesis
    by (auto simp: select_by_email_def Let_def split: pyexn.splits)
next
  case (Inr cur)
  have le: "length cur \<le> Suc 0"
    using assms find_length [OF Inr]
      distinct_filter_le_one [of "\<lambda>d. map_of d ''email''" "docs c" "Some (PStr e)"]
    by (simp add: email_keys_def)
  show ?thesis
  proof (cases "cursor_helper cur")
    case (Inl ex)
    with Inr cursor_helper_no_assertion [of cur] show ?thesis
      by (auto simp: select_by_email_def Let_def)
  next
    case (Inr result)
    with le cursor_helper_length [OF Inr] have "result = [] \<or> length result = Suc 0"
      by (cases result) auto
    with Inr \<open>find c [(''email'', PStr e)] [(''_id'', PBool False)] = Inr cur\<close>
      UserModel_kwargs_no_assertion [of PDbCtx "hd result"]
    show ?thesis
      by (auto simp: select_by_email_def Let_def split: sum.splits)
  qed
qed

lemma alice_world_eq:
  "alice_world =
     \<lparr> created_index = False,
       users = \<lparr> docs = [[(''email'', PStr ''alice@example.com''),
            (''password'', PStr ''$2b$12$abcdefghijklmnopqrstuvsecret1''),
            (''is_authenticated'', PBool False),
            (''is_anonymous'', PBool False), (''is_active'', PBool True),
            (''confirmed'', PBool False), (''_id'', PObjectId 0)]],
          unique_email = True, index_calls = 1, next_id = 1, fault = None \<rparr> \<rparr>"
  by code_simp

lemma reachable_alice_world: "reachable alice_world"
proof -
  have "snd (submit alice_user initial_world) = alice_world"
    by code_simp
  with reachable.after_submit [OF reachable.initial] show ?thesis by metis
qed

lemma select_alice:
  "select_by_email (users alice_world) ''alice@example.com'' =
     Inr \<lparr> success = True, count = 1, message = PStr [], code = None,
        documents = UserDocument
           \<lparr> db_ctx = PDbCtx, email = PStr ''alice@example.com'',
              password = PStr ''$2b$12$abcdefghijklmnopqrstuvsecret1'',
              is_authenticated = PBool True, is_anonymous = PBool False,
              is_active = PBool True,
              details = [(''is_anonymous'', PBool False), (''is_active'', PBool True),
                 (''confirmed'', PBool False)] \<rparr>,
        db_exception = None \<rparr>"
  by code_simp

text \<open>
  C7. In every reachable state the documents matching an email are at most one, so the
  assertion of \<^verbatim>\<open>select_by_email\<close> never fails; and in any state whatever, a result
  that \<^verbatim>\<open>select_by_email\<close> returns has a count of zero or one (the assertion guards the
  rest).
\<close>

theorem lookup_returns_at_most_one:
  assumes "reachable w"
  shows "length (filter (matches [(''email'', PStr e)]) (docs (users w))) \<le> 1
       \<and> select_by_email (users w) e \<noteq> Inl AssertionError
       \<and> (\<forall>c r. select_by_email c e = Inr r \<longrightarrow> count r \<le> 1)"
proof -
  from assms have d: "distinct (email_keys (users w))"
    using reachable_inv by (simp add: store_inv_def)
  have "length (filter (\<lambda>d. map_of d ''email'' = Some (PStr e)) (docs (users w))) \<le> Suc 0"
    using d distinct_filter_le_one [of "\<lambda>d. map_of d ''email''" "docs (users w)" "Some (PStr e)"]
    by (simp add: email_keys_def)
  moreover have "select_by_email (users w) e \<noteq> Inl AssertionError"
    using d by (rule select_by_email_no_assertion)
  ultimately show ?thesis
    using select_by_email_count by simp
qed

theorem lookup_returns_at_most_one_witness:
  "reachable alice_world
   \<and> length (filter (matches [(''email'', PStr ''alice@example.com'')])
        (docs (users alice_world))) \<le> 1
   \<and> select_by_email (users alice_world) ''alice@example.com'' \<noteq> Inl AssertionError
   \<and> (\<exists>r. select_by_email (users alice_world) ''alice@example.com'' = Inr r \<and> count r = 1)"
  using lookup_returns_at_most_one [OF reachable_alice_world, of "''alice@example.com''"]
    reachable_alice_world select_alice
  by simp

lemma map_of_project_id:
  "k \<noteq> ''_id'' \<Longrightarrow> map_of (project [(''_id'', PBool False)] d) k = map_of d k"
  by (induction d) (auto simp: project_def)

lemma project_no_id: "''_id'' \<notin> fst ` set (project [(''_id'', PBool False)] d)"
  by (auto simp: project_def)

lemma fix_timestamp_map_of:
  "fix_timestamp d = Inr d' \<Longrightarrow> k \<noteq> ''creation_timestamp'' \<Longrightarrow> map_of d' k = map_of d k"
  by (auto simp: fix_timestamp_def AList.update_conv' split: option.splits if_splits pyval.splits)

lemma map_of_Some_key: "map_of d k = Some v \<Longrightarrow> k \<in> fst ` set d"
  by (metis map_of_eq_None_iff option.distinct(1))

lemma update_present_keys:
  "map_of d k = Some v \<Longrightarrow> fst ` set (AList.update k v' d) = fst ` set d"
  by (simp add: AList.dom_update insert_absorb map_of_Some_key)

lemma fix_timestamp_keys:
  assumes "fix_timestamp d = Inr d'"
  shows "fst ` set d' = fst ` set d"
proof (cases "map_of d ''creation_timestamp''")
  case None
  with assms show ?thesis by (simp add: fix_timestamp_def)
next
  case (Some v)
  with assms have "d' = d \<or> (\<exists>t. d' = AList.update ''creation_timestamp'' (PStr t) d)"
    by (cases v) (auto simp add: fix_timestamp_def split: if_splits)
  then show ?thesis
    by (elim disjE exE) (simp_all add: update_present_keys [OF Some])
qed

lemma cursor_helper_hd:
  "cursor_helper xs = Inr ys \<Longrightarrow> ys \<noteq> [] \<Longrightarrow>
     xs \<noteq> [] \<and> fix_timestamp (hd xs) = Inr (hd ys)"
  by (cases xs) (auto split: sum.splits)

lemma find_hd:
  "find c [(''email'', PStr e)] [(''_id'', PBool False)] = Inr cur \<Longrightarrow> cur \<noteq> [] \<Longrightarrow>
     \<exists>d \<in> set (docs c). map_of d ''email'' = Some (PStr e)
        \<and> hd cur = project [(''_id'', PBool False)] d"
proof -
  assume f: "find c [(''email'', PStr e)] [(''_id'', PBool False)] = Inr cur" and ne: "cur \<noteq> []"
  let ?ms = "filter (\<lambda>d. map_of d ''email'' = Some (PStr e)) (docs c)"
  from f have cur: "cur = map (project [(''_id'', PBool False)]) ?ms"
    by (auto simp: find_def split: option.splits)
  with ne have ms: "?ms \<noteq> []" by auto
  define x where "x = hd ?ms"
  have "x \<in> set ?ms" unfolding x_def using ms by (rule hd_in_set)
  then have "x \<in> set (docs c) \<and> map_of x ''email'' = Some (PStr e)" by simp
  moreover from cur ms have "hd cur = project [(''_id'', PBool False)] x"
    by (simp add: hd_map x_def)
  ultimately show ?thesis by blast
qed

lemma UserModel_kwargs_Inr:
  "UserModel_kwargs ctx kw = Inr u \<Longrightarrow>
     map_of kw ''email'' = Some (email u) \<and> map_of kw ''password'' = Some (password u)
     \<and> details u = filter (\<lambda>(k, v). k \<noteq> ''email'' \<and> k \<noteq> ''password''
                                   \<and> k \<noteq> ''is_authenticated'') kw
     \<and> db_ctx u = ctx \<and> is_anonymous u = PBool False \<and> is_active u = PBool True"
  by (auto simp: UserModel_kwargs_def UserModel_init_def split: option.splits if_splits)

lemma select_by_email_found:
  assumes "select_by_email c e = Inr r" and "count r \<noteq> 0"
  shows "\<exists>d result u. d \<in> set (docs c) \<and> map_of d ''email'' = Some (PStr e)
           \<and> fix_timestamp (project [(''_id'', PBool False)] d) = Inr result
           \<and> UserModel_kwargs PDbCtx result = Inr u
           \<and> r = MongoReturn_init\<lparr>success := True,
                   documents := UserDocument (u\<lparr>is_authenticated := PBool True\<rparr>), count := 1\<rparr>"
proof -
  from assms obtain cur where cur: "find c [(''email'', PStr e)] [(''_id'', PBool False)] = Inr cur"
    by (auto simp: select_by_email_def Let_def MongoReturn_init_def split: sum.splits pyexn.splits)
  with assms obtain result where res: "cursor_helper cur = Inr result"
    by (auto simp: select_by_email_def Let_def split: sum.splits)
  with cur assms have ne: "result \<noteq> []" and len: "length result = 1"
    by (auto simp: select_by_email_def Let_def MongoReturn_init_def split: sum.splits if_splits)
  with cur res assms obtain u where u: "UserModel_kwargs PDbCtx (hd result) = Inr u"
    and r: "r = MongoReturn_init\<lparr>success := True,
                   documents := UserDocument (u\<lparr>is_authenticated := PBool True\<rparr>), count := 1\<rparr>"
    by (auto simp: select_by_email_def Let_def split: sum.splits if_splits)
  from cursor_helper_hd [OF res ne] have cne: "cur \<noteq> []"
    and fx: "fix_timestamp (hd cur) = Inr (hd result)" by simp_all
  from find_hd [OF cur cne] obtain d where "d \<in> set (docs c)"
    "map_of d ''email'' = Some (PStr e)" "hd cur = project [(''_id'', PBool False)] d" by auto
  with fx u r show ?thesis by auto
qed

text \<open>
  C10. Whenever \<^verbatim>\<open>select_by_email\<close> returns a result that counts a match, the result
  holds a user object for that email whose \<^verbatim>\<open>is_authenticated\<close> is \<^verbatim>\<open>True\<close>: the lookup
  sets the flag itself, and takes no password.
\<close>

theorem lookup_marks_authenticated:
  assumes "select_by_email c e = Inr r" and "count r \<noteq> 0"
  shows "\<exists>user. documents r = UserDocument user
           \<and> is_authenticated user = PBool True \<and> email user = PStr e"
proof -
  from select_by_email_found [OF assms] obtain d result u where
    d: "map_of d ''email'' = Some (PStr e)"
    and fx: "fix_timestamp (project [(''_id'', PBool False)] d) = Inr result"
    and u: "UserModel_kwargs PDbCtx result = Inr u"
    and r: "r = MongoReturn_init\<lparr>success := True,
                   documents := UserDocument (u\<lparr>is_authenticated := PBool True\<rparr>), count := 1\<rparr>"
    by auto
  from fix_timestamp_map_of [OF fx, of "''email''"] d
  have "map_of result ''email'' = Some (PStr e)" by (simp add: map_of_project_id)
  with UserModel_kwargs_Inr [OF u] have "email u = PStr e" by simp
  with r show ?thesis by simp
qed

theorem lookup_marks_authenticated_witness:
  "\<exists>r user. select_by_email (users alice_world) ''alice@example.com'' = Inr r
      \<and> count r \<noteq> 0 \<and> documents r = UserDocument user
      \<and> is_authenticated user = PBool True \<and> email user = PStr ''alice@example.com''"
  using lookup_marks_authenticated [OF select_alice] select_alice
  by simp

section \<open>The persisted record\<close>

lemma flatten_details_keys:
  "flatten_details ks a = Inr a' \<Longrightarrow> fst ` set a' = fst ` set a \<union> set ks"
proof (induction ks arbitrary: a)
  case Nil
  then show ?case by simp
next
  case (Cons k ks)
  from Cons.prems obtain d v where
    "flatten_details ks (AList.update k v a) = Inr a'"
    by (auto split: option.splits pyval.splits)
  from Cons.IH [OF this] show ?case by (auto simp: AList.dom_update)
qed

lemma to_dict_keys:
  assumes "to_dict self = Inr d"
  shows "fst ` set d =
           ({''email'', ''password'', ''is_authenticated'', ''is_anonymous'', ''is_active''}
              \<union> fst ` set (details self)) - {''details''}"
proof -
  from assms obtain a where
    a: "flatten_details (map fst (details self)) (AList.delete ''db_ctx'' (vars_of self)) = Inr a"
    and d: "d = AList.delete ''details'' a"
    by (auto simp: to_dict_def Let_def split: sum.splits if_splits)
  have "fst ` set (AList.delete ''db_ctx'' (vars_of self)) =
          {''email'', ''password'', ''is_authenticated'', ''is_anonymous'', ''is_active'',
           ''details''}"
    by (auto simp: vars_of_def AList.delete_eq)
  with flatten_details_keys [OF a] have
    "fst ` set a = {''email'', ''password'', ''is_authenticated'', ''is_anonymous'',
        ''is_active'', ''details''} \<union> fst ` set (details self)"
    by simp
  moreover have "fst ` set d = fst ` set a - {''details''}"
    unfolding d by (auto simp: AList.delete_eq)
  ultimately show ?thesis by auto
qed

lemma submit_success_doc:
  assumes "submit self w = (Inr ret, w')" and "success ret"
  shows "\<exists>d doc n. to_dict self = Inr d \<and> docs (users w') = docs (users w) @ [doc]
           \<and> (doc = d \<and> ''_id'' \<in> fst ` set d \<or> doc = d @ [(''_id'', PObjectId n)])"
  using assms
  by (auto simp: submit_def Let_def insert_one_def MongoReturn_init_def
      split: sum.splits pyexn.splits prod.splits option.splits if_splits
      dest!: create_index_Inr map_of_Some_key)

lemma select_by_email_user_count:
  "select_by_email c e = Inr r \<Longrightarrow> documents r = UserDocument user \<Longrightarrow> count r \<noteq> 0"
  by (auto simp: select_by_email_def Let_def MongoReturn_init_def
      split: sum.splits pyexn.splits if_splits)

lemma select_by_email_no_id:
  assumes "select_by_email c e = Inr r" and "documents r = UserDocument user"
  shows "''_id'' \<notin> fst ` set (details user)"
proof -
  from select_by_email_user_count [OF assms] have "count r \<noteq> 0" .
  from select_by_email_found [OF assms(1) this] obtain d result u where
    fx: "fix_timestamp (project [(''_id'', PBool False)] d) = Inr result"
    and u: "UserModel_kwargs PDbCtx result = Inr u"
    and r: "r = MongoReturn_init\<lparr>success := True,
                   documents := UserDocument (u\<lparr>is_authenticated := PBool True\<rparr>), count := 1\<rparr>"
    by auto
  from fix_timestamp_keys [OF fx] project_no_id [of d]
  have "''_id'' \<notin> fst ` set result" by simp
  with UserModel_kwargs_Inr [OF u] have "''_id'' \<notin> fst ` set (details u)" by auto
  with r assms(2) show ?thesis by auto
qed

text \<open>
  C9, as amended. A record that \<^verbatim>\<open>submit\<close> persists has exactly the fields \<^verbatim>\<open>email\<close>,
  \<^verbatim>\<open>password\<close>, \<^verbatim>\<open>is_authenticated\<close>, \<^verbatim>\<open>is_anonymous\<close>, \<^verbatim>\<open>is_active\<close>, the keys of the
  details (for \<^verbatim>\<open>register\<close>: \<^verbatim>\<open>confirmed\<close>) other than \<^verbatim>\<open>details\<close>, and the \<^verbatim>\<open>_id\<close> of the
  store; and the user object a lookup returns carries no \<^verbatim>\<open>_id\<close>.
\<close>

theorem persisted_record_shape:
  "(submit self w = (Inr ret, w') \<and> success ret \<longrightarrow>
      (\<exists>doc. docs (users w') = docs (users w) @ [doc]
         \<and> fst ` set doc =
             (({''email'', ''password'', ''is_authenticated'', ''is_anonymous'', ''is_active''}
                 \<union> fst ` set (details self)) - {''details''}) \<union> {''_id''}))
   \<and> (select_by_email c e = Inr r \<and> documents r = UserDocument user \<longrightarrow>
        ''_id'' \<notin> fst ` set (details user))"
proof (intro conjI impI)
  assume a: "submit self w = (Inr ret, w') \<and> success ret"
  then have s1: "submit self w = (Inr ret, w')" and s2: "success ret" by simp_all
  from submit_success_doc [OF s1 s2] obtain d doc n where d: "to_dict self = Inr d"
    and docs: "docs (users w') = docs (users w) @ [doc]"
    and doc: "doc = d \<and> ''_id'' \<in> fst ` set d \<or> doc = d @ [(''_id'', PObjectId n)]"
    by blast
  from doc have "fst ` set doc = fst ` set d \<union> {''_id''}" by auto
  then have "fst ` set doc =
             (({''email'', ''password'', ''is_authenticated'', ''is_anonymous'', ''is_active''}
                 \<union> fst ` set (details self)) - {''details''}) \<union> {''_id''}"
    by (simp only: to_dict_keys [OF d])
  with docs
  show "\<exists>doc. docs (users w') = docs (users w) @ [doc]
         \<and> fst ` set doc =
             (({''email'', ''password'', ''is_authenticated'', ''is_anonymous'', ''is_active''}
                 \<union> fst ` set (details self)) - {''details''}) \<union> {''_id''}"
    by blast
next
  assume b: "select_by_email c e = Inr r \<and> documents r = UserDocument user"
  then have b1: "select_by_email c e = Inr r" and b2: "documents r = UserDocument user"
    by simp_all
  show "''_id'' \<notin> fst ` set (details user)"
    using b1 b2 by (rule select_by_email_no_id)
qed

lemma to_dict_alice:
  "to_dict alice_user =
     Inr [(''email'', PStr ''alice@example.com''),
          (''password'', PStr ''$2b$12$abcdefghijklmnopqrstuvsecret1''),
          (''is_authenticated'', PBool False), (''is_anonymous'', PBool False),
          (''is_active'', PBool True), (''confirmed'', PBool False)]"
  by code_simp

lemma submit_alice:
  "submit alice_user initial_world =
     (Inr \<lparr> success = True, count = 1, message = PStr ''Document inserted successfully'',
            code = None, documents = NoDocuments, db_exception = None \<rparr>, alice_world)"
  by code_simp

text \<open>
  C9 as stated fails: the record persisted for the first registration of the scenario
  has the field \<^verbatim>\<open>is_active\<close> (and \<^verbatim>\<open>is_authenticated\<close>, \<^verbatim>\<open>is_anonymous\<close>), which is neither
  \<^verbatim>\<open>email\<close>, \<^verbatim>\<open>password\<close>, \<^verbatim>\<open>confirmed\<close> nor a key of the details.
\<close>

theorem persisted_record_shape_counterexample:
  "map fst (hd (docs (users alice_world))) =
     [''email'', ''password'', ''is_authenticated'', ''is_anonymous'', ''is_active'',
      ''confirmed'', ''_id'']
   \<and> map fst (details alice_user) = [''confirmed'']
   \<and> ''is_active'' \<in> fst ` set (hd (docs (users alice_world)))
   \<and> ''is_active'' \<notin> {''email'', ''password'', ''confirmed''} \<union> fst ` set (details alice_user)"
  by (simp add: alice_world_eq alice_user_def UserModel_init_def)

theorem persisted_record_shape_witness:
  "(\<exists>ret. submit alice_user initial_world = (Inr ret, alice_world) \<and> success ret)
   \<and> (\<exists>doc. docs (users alice_world) = docs (users initial_world) @ [doc]
         \<and> fst ` set doc =
             (({''email'', ''password'', ''is_authenticated'', ''is_anonymous'', ''is_active''}
                 \<union> fst ` set (details alice_user)) - {''details''}) \<union> {''_id''})
   \<and> (\<exists>r user. select_by_email (users alice_world) ''alice@example.com'' = Inr r
         \<and> documents r = UserDocument user \<and> ''_id'' \<notin> fst ` set (details user))"
proof -
  from submit_alice obtain ret where
    1: "submit alice_user initial_world = (Inr ret, alice_world) \<and> success ret"
    by simp
  from select_alice obtain r user where
    2: "select_by_email (users alice_world) ''alice@example.com'' = Inr r
         \<and> documents r = UserDocument user"
    by simp
  note shape = persisted_record_shape [of alice_user initial_world ret alice_world
      "users alice_world" "''alice@example.com''" r user]
  from shape [THEN conjunct1] 1 have a:
    "\<exists>doc. docs (users alice_world) = docs (users initial_world) @ [doc]
         \<and> fst ` set doc =
             (({''email'', ''password'', ''is_authenticated'', ''is_anonymous'', ''is_active''}
                 \<union> fst ` set (details alice_user)) - {''details''}) \<union> {''_id''}"
    by (rule mp)
  from shape [THEN conjunct2] 2 have b: "''_id'' \<notin> fst ` set (details user)"
    by (rule mp)
  from 1 have c: "\<exists>ret. submit alice_user initial_world = (Inr ret, alice_world) \<and> success ret"
    by (rule exI)
  from 2 b have "select_by_email (users alice_world) ''alice@example.com'' = Inr r
         \<and> documents r = UserDocument user \<and> ''_id'' \<notin> fst ` set (details user)"
    by (simp only: simp_thms)
  then have d: "\<exists>r user. select_by_email (users alice_world) ''alice@example.com'' = Inr r
         \<and> documents r = UserDocument user \<and> ''_id'' \<notin> fst ` set (details user)"
    by (intro exI)
  from c a d show ?thesis by (intro conjI)
qed

section \<open>The index flag\<close>

text \<open>No path of \<^verbatim>\<open>submit\<close> assigns the class attribute, so it keeps the value of line 31
  and every call in a working store asks for the index again.\<close>

lemma submit_keeps_created_index: "created_index (snd (submit self w)) = created_index w"
  by (simp add: submit_def Let_def split: sum.splits pyexn.splits prod.splits)

lemma reachable_created_index: "reachable w \<Longrightarrow> \<not> created_index w"
  using reachable_inv by (simp add: store_inv_def)

lemma submit_creates_index_again:
  assumes "reachable w" and "fault (users w) = None"
  shows "index_calls (users (snd (submit self w))) = Suc (index_calls (users w))"
proof -
  from assms(1) have inv: "store_inv w" by (rule reachable_inv)
  then have "\<exists>c1. create_index (users w) = Inr c1"
    using assms(2) by (auto simp: create_index_def store_inv_def)
  then obtain c1 where c1: "create_index (users w) = Inr c1" ..
  from create_index_Inr [OF c1] have i: "index_calls c1 = Suc (index_calls (users w))" by simp
  from inv have "\<not> created_index w" by (simp add: store_inv_def)
  with c1 i show ?thesis
    by (auto simp: submit_def Let_def insert_one_def
        split: sum.splits pyexn.splits prod.splits option.splits)
qed

text \<open>
  C8, what the code does. After the first \<^verbatim>\<open>submit\<close> the flag \<^verbatim>\<open>created_index\<close> is still
  \<^verbatim>\<open>False\<close>, and the second \<^verbatim>\<open>submit\<close> sends a second \<^verbatim>\<open>create_index\<close> request: the
  creation is not limited to the first insert.
\<close>

theorem index_created_on_every_submit:
  "created_index initial_world = False
   \<and> created_index (snd (submit alice_user initial_world)) = False
   \<and> index_calls (users (snd (submit alice_user initial_world))) = 1
   \<and> created_index (snd (submit bob_user (snd (submit alice_user initial_world)))) = False
   \<and> index_calls (users (snd (submit bob_user (snd (submit alice_user initial_world))))) = 2"
  by code_simp

section \<open>Registration of a known email\<close>

text \<open>\<^verbatim>\<open>validate\<close> looks at \<^verbatim>\<open>result.success\<close> only: a lookup that succeeds passes the
  form, whether or not it found the email.\<close>

lemma validate_ignores_count:
  assumes "fst (Form_validate L f)"
    and "select_by_email (users w) (data (reg_email (snd (Form_validate L f)))) = Inr r"
    and "success r"
  shows "validate L w f = Inr (True, snd (Form_validate L f))"
  using assms by (cases "Form_validate L f") (simp add: validate_def)

lemma select_by_email_success:
  "select_by_email c e = Inr r \<Longrightarrow> success r = (fault c = None)"
  by (auto simp: select_by_email_def Let_def MongoReturn_init_def find_def
      split: sum.splits pyexn.splits if_splits option.splits)

text \<open>
  C1, what the code does. With \<^verbatim>\<open>alice@example.com\<close> stored, the second registration
  passes \<^verbatim>\<open>validate\<close> without an error on the email field, \<^verbatim>\<open>submit\<close> returns the
  duplicate-key failure, \<^verbatim>\<open>register\<close> drops it and answers as for a success; the store
  keeps its one document.
\<close>

theorem duplicate_registration_reports_success:
  "Some (PStr ''alice@example.com'') \<in> set (email_keys (users alice_world))
   \<and> validate demo_libs alice_world (RegistrationForm_init (form alice_registers))
       = Inr (True, RegistrationForm_init (form alice_registers))
   \<and> fst (submit alice_user alice_world)
       = Inr \<lparr> success = False, count = 0,
               message = PDict [(''code'', PInt 11000),
                                (''errmsg'', PStr ''E11000 duplicate key error'')],
               code = Some 11000, documents = NoDocuments,
               db_exception = Some DuplicateKeyError \<rparr>
   \<and> register demo_libs (URLSafeTimedSerializer demo_mac) demo_config 0 alice_registers
         alice_world
       = (Inr \<lparr> flashes = [(''A confirmation email has been sent via email.'', ''success'')],
                page = Redirect ''main_bp.home'', session_user = None, printed = [] \<rparr>,
          alice_world\<lparr>users := (users alice_world)\<lparr>index_calls := 2\<rparr>\<rparr>)"
  by code_simp

section \<open>Failed logins\<close>

lemma login_unknown_email:
  assumes "LoginForm_validate_on_submit L req (LoginForm_init (form req)) = (True, f)"
    and "select_by_email (users w) (data (login_email f)) = Inr r"
    and "count r = 0"
  shows "login L req w =
           Inr \<lparr> flashes = [(''Invalid email and/or password.'', ''danger'')],
                 page = Render ''login.html'' (login_errors f),
                 session_user = None, printed = [] \<rparr>"
  using assms by (simp add: login_def)

lemma login_wrong_password:
  assumes "LoginForm_validate_on_submit L req (LoginForm_init (form req)) = (True, f)"
    and "select_by_email (users w) (data (login_email f)) = Inr r"
    and "count r \<noteq> 0"
    and "documents r = UserDocument user"
    and "map_of (form req) ''password'' = Some pw"
    and "check_password_hash L (password user) pw = Inr False"
  shows "login L req w =
           Inr \<lparr> flashes = [], page = Render ''login.html'' (login_errors f),
                 session_user = None, printed = [] \<rparr>"
  using assms by (simp add: login_def)

text \<open>
  C3, what the code does. A wrong password for a registered email renders the login page
  with no message; an unknown email renders it with the flashed message: the two
  responses differ.
\<close>

theorem login_failures_differ:
  "login demo_libs (alice_logs_in ''wrong'') alice_world
     = Inr \<lparr> flashes = [],
             page = Render ''login.html'' [(''email'', []), (''password'', [])],
             session_user = None, printed = [] \<rparr>
   \<and> login demo_libs (bob_logs_in ''wrong'') alice_world
     = Inr \<lparr> flashes = [(''Invalid email and/or password.'', ''danger'')],
             page = Render ''login.html'' [(''email'', []), (''password'', [])],
             session_user = None, printed = [] \<rparr>
   \<and> login demo_libs (alice_logs_in ''wrong'') alice_world
     \<noteq> login demo_libs (bob_logs_in ''wrong'') alice_world"
  by code_simp

section \<open>Registration of a new email\<close>

lemma Form_validate_valid:
  assumes "email_validator L E" "\<not> list_all is_space E" "6 \<le> length E" "length E \<le> 40"
    and "\<not> list_all is_space P" "6 \<le> length P" "length P \<le> 25"
  shows "Form_validate L (RegistrationForm_init
             [(''email'', E), (''password'', P), (''confirm'', P)])
         = (True, RegistrationForm_init [(''email'', E), (''password'', P), (''confirm'', P)])"
  using assms
  by (simp add: Form_validate_def RegistrationForm_init_def bind_field_def Let_def
      DataRequired_def Email_def Length_def EqualTo_def)

lemma filter_email_absent:
  "Some v \<notin> set (email_keys c) \<Longrightarrow> filter (\<lambda>d. map_of d ''email'' = Some v) (docs c) = []"
  by (force simp: email_keys_def filter_empty_conv)

lemma select_by_email_absent:
  assumes "fault c = None" and "Some (PStr e) \<notin> set (email_keys c)"
  shows "select_by_email c e = Inr (MongoReturn_init\<lparr>success := True, count := 0\<rparr>)"
  using assms
  by (simp add: select_by_email_def find_def filter_email_absent)

lemma to_dict_registered:
  "to_dict (UserModel_init PDbCtx (PStr e) (PStr h) (PBool False) [(''confirmed'', PBool False)])
     = Inr (registered_doc e h)"
  by (simp add: to_dict_def UserModel_init_def vars_of_def AList.delete_eq registered_doc_def)

lemma submit_new_email:
  assumes "store_inv w" and "fault (users w) = None"
    and "to_dict self = Inr d" and "map_of d ''_id'' = None"
    and "map_of d ''email'' \<notin> set (email_keys (users w))"
  shows "\<exists>ret w'. submit self w = (Inr ret, w') \<and> success ret
           \<and> fault (users w') = None
           \<and> docs (users w') = docs (users w) @ [d @ [(''_id'', PObjectId (next_id (users w)))]]"
  using assms
  by (auto simp: submit_def store_inv_def create_index_def insert_one_def Let_def
      MongoReturn_init_def)

lemma select_by_email_registered:
  assumes "fault c = None"
    and "docs c = ds @ [registered_doc e h @ [(''_id'', i)]]"
    and "filter (\<lambda>d. map_of d ''email'' = Some (PStr e)) ds = []"
  shows "select_by_email c e =
     Inr (MongoReturn_init\<lparr>success := True,
            documents := UserDocument
              \<lparr> db_ctx = PDbCtx, email = PStr e, password = PStr h,
                is_authenticated = PBool True, is_anonymous = PBool False,
                is_active = PBool True,
                details = [(''is_anonymous'', PBool False), (''is_active'', PBool True),
                           (''confirmed'', PBool False)] \<rparr>,
            count := 1\<rparr>)"
  using assms
  by (simp add: select_by_email_def find_def registered_doc_def project_def
      fix_timestamp_def UserModel_kwargs_def UserModel_init_def)

lemma validate_on_submit_valid:
  assumes "fault (users w) = None"
    and "email_validator L E" "\<not> list_all is_space E" "6 \<le> length E" "length E \<le> 40"
    and "\<not> list_all is_space P" "6 \<le> length P" "length P \<le> 25"
    and "Some (PStr E) \<notin> set (email_keys (users w))"
  shows "validate_on_submit L
           \<lparr>request_method = POST, form = [(''email'', E), (''password'', P), (''confirm'', P)]\<rparr>
           w (RegistrationForm_init [(''email'', E), (''password'', P), (''confirm'', P)])
         = Inr (True, RegistrationForm_init [(''email'', E), (''password'', P), (''confirm'', P)])"
proof -
  have d: "data (reg_email (RegistrationForm_init
              [(''email'', E), (''password'', P), (''confirm'', P)])) = E"
    by (simp add: RegistrationForm_init_def bind_field_def)
  show ?thesis
    using Form_validate_valid [OF assms(2-8)] select_by_email_absent [OF assms(1) assms(9)] d
    by (simp add: validate_on_submit_def validate_def MongoReturn_init_def)
qed

lemma register_stores_account:
  assumes "reachable w" and "fault (users w) = None"
    and "email_validator L E" "\<not> list_all is_space E" "6 \<le> length E" "length E \<le> 40"
    and "\<not> list_all is_space P" "6 \<le> length P" "length P \<le> 25"
    and "Some (PStr E) \<notin> set (email_keys (users w))"
    and "map_of cfg ''SECRET_KEY'' = Some key"
    and "map_of cfg ''SECURITY_PASSWORD_SALT'' = Some salt"
    and "generate_password_hash L P = Inr digest"
  shows "\<exists>w'.
      register L S cfg now
        \<lparr>request_method = POST, form = [(''email'', E), (''password'', P), (''confirm'', P)]\<rparr> w
        = (Inr \<lparr> flashes = [(''A confirmation email has been sent via email.'', ''success'')],
                 page = Redirect ''main_bp.home'', session_user = None, printed = [] \<rparr>, w')
      \<and> select_by_email (users w') E =
          Inr (MongoReturn_init\<lparr>success := True,
                 documents := UserDocument
                   \<lparr> db_ctx = PDbCtx, email = PStr E,
                     password = PStr (str_of_bytes L digest),
                     is_authenticated = PBool True, is_anonymous = PBool False,
                     is_active = PBool True,
                     details = [(''is_anonymous'', PBool False), (''is_active'', PBool True),
                                (''confirmed'', PBool False)] \<rparr>,
                 count := 1\<rparr>)"
proof -
  let ?fm = "[(''email'', E), (''password'', P), (''confirm'', P)]"
  let ?h = "str_of_bytes L digest"
  let ?self = "UserModel_init PDbCtx (PStr E) (PStr ?h) (PBool False) [(''confirmed'', PBool False)]"
  have v: "validate_on_submit L \<lparr>request_method = POST, form = ?fm\<rparr> w
             (RegistrationForm_init ?fm) = Inr (True, RegistrationForm_init ?fm)"
    using assms(2-10) by (rule validate_on_submit_valid)
  have fields: "data (reg_email (RegistrationForm_init ?fm)) = E"
    "data (reg_password (RegistrationForm_init ?fm)) = P"
    by (simp_all add: RegistrationForm_init_def bind_field_def)
  from assms(1) have inv: "store_inv w" by (rule reachable_inv)
  have td: "to_dict ?self = Inr (registered_doc E ?h)" by (rule to_dict_registered)
  have noid: "map_of (registered_doc E ?h) ''_id'' = None"
    and em: "map_of (registered_doc E ?h) ''email'' = Some (PStr E)"
    by (simp_all add: registered_doc_def)
  from em assms(10) have fresh: "map_of (registered_doc E ?h) ''email'' \<notin> set (email_keys (users w))"
    by simp
  from submit_new_email [OF inv assms(2) td noid fresh] obtain ret w' where
    sub: "submit ?self w = (Inr ret, w')" and f': "fault (users w') = None"
    and docs': "docs (users w') =
        docs (users w) @ [registered_doc E ?h @ [(''_id'', PObjectId (next_id (users w)))]]"
    by blast
  let ?resp = "\<lparr> flashes = [(''A confirmation email has been sent via email.'', ''success'')],
                 page = Redirect ''main_bp.home'', session_user = None, printed = [] \<rparr>"
  have reg: "register L S cfg now \<lparr>request_method = POST, form = ?fm\<rparr> w = (Inr ?resp, w')"
    using v fields sub assms(11-13)
    by (simp add: register_def Let_def generate_confirmation_token_def config_get_def)
  have sel: "select_by_email (users w') E =
          Inr (MongoReturn_init\<lparr>success := True,
                 documents := UserDocument
                   \<lparr> db_ctx = PDbCtx, email = PStr E, password = PStr ?h,
                     is_authenticated = PBool True, is_anonymous = PBool False,
                     is_active = PBool True,
                     details = [(''is_anonymous'', PBool False), (''is_active'', PBool True),
                                (''confirmed'', PBool False)] \<rparr>,
                 count := 1\<rparr>)"
    using f' docs' filter_email_absent [OF assms(10)]
    by (rule select_by_email_registered)
  from reg sel show ?thesis by (intro exI conjI)
qed






section \<open>Login of a stored account\<close>

text \<open>
  What \<^verbatim>\<open>login\<close> does with a found account is decided by the library's check of the
  submitted password against the stored text, and by nothing else: the session is bound
  to the email exactly when the check returns \<^verbatim>\<open>True\<close>, and an exception of the check
  leaves the view.
\<close>

lemma LoginForm_valid:
  assumes "email_validator L E" "\<not> list_all is_space E" "\<not> list_all is_space P'"
  shows "LoginForm_validate_on_submit L
           \<lparr>request_method = POST, form = [(''email'', E), (''password'', P')]\<rparr>
           (LoginForm_init [(''email'', E), (''password'', P')])
         = (True, LoginForm_init [(''email'', E), (''password'', P')])"
  using assms
  by (simp add: LoginForm_validate_on_submit_def LoginForm_validate_def LoginForm_init_def
      bind_field_def Let_def DataRequired_def Email_def)

lemma login_follows_password_check:
  assumes "email_validator L E" "\<not> list_all is_space E" "\<not> list_all is_space P'"
    and "select_by_email (users w) E = Inr r" and "count r \<noteq> 0"
    and "documents r = UserDocument user"
  shows "login L \<lparr>request_method = POST, form = [(''email'', E), (''password'', P')]\<rparr> w =
           (case check_password_hash L (password user) P' of
              Inl ex \<Rightarrow> Inl ex
            | Inr True \<Rightarrow>
                Inr \<lparr> flashes = [(''Welcome.'', ''success'')], page = Redirect ''main_bp.home'',
                      session_user = Some (email user), printed = [] \<rparr>
            | Inr False \<Rightarrow>
                Inr \<lparr> flashes = [],
                      page = Render ''login.html'' [(''email'', []), (''password'', [])],
                      session_user = None, printed = [] \<rparr>)"
proof -
  have d: "data (login_email (LoginForm_init [(''email'', E), (''password'', P')])) = E"
    by (simp add: LoginForm_init_def bind_field_def)
  have e: "login_errors (LoginForm_init [(''email'', E), (''password'', P')])
             = [(''email'', []), (''password'', [])]"
    by (simp add: login_errors_def LoginForm_init_def bind_field_def)
  show ?thesis
    using LoginForm_valid [OF assms(1-3)] assms(4-6) d e
    by (simp add: login_def get_id_def split: sum.splits bool.splits)
qed

text \<open>
  After a registration with password \<open>P\<close>, a login with the same email and a password
  \<open>P'\<close> is decided by the check of \<open>P'\<close> against \<^verbatim>\<open>str\<close> of the digest of \<open>P\<close>, the
  text \<^verbatim>\<open>register\<close> stored.
\<close>

lemma login_after_register:
  assumes "reachable w" and "fault (users w) = None"
    and "email_validator L E" "\<not> list_all is_space E" "6 \<le> length E" "length E \<le> 40"
    and "\<not> list_all is_space P" "6 \<le> length P" "length P \<le> 25"
    and "Some (PStr E) \<notin> set (email_keys (users w))"
    and "map_of cfg ''SECRET_KEY'' = Some key"
    and "map_of cfg ''SECURITY_PASSWORD_SALT'' = Some salt"
    and "generate_password_hash L P = Inr digest"
    and "\<not> list_all is_space P'"
  shows "\<exists>resp w'.
      register L S cfg now
        \<lparr>request_method = POST, form = [(''email'', E), (''password'', P), (''confirm'', P)]\<rparr> w
        = (Inr resp, w')
      \<and> login L \<lparr>request_method = POST, form = [(''email'', E), (''password'', P')]\<rparr> w' =
           (case check_password_hash L
                   (PStr (str_of_bytes L digest)) P' of
              Inl ex \<Rightarrow> Inl ex
            | Inr True \<Rightarrow>
                Inr \<lparr> flashes = [(''Welcome.'', ''success'')], page = Redirect ''main_bp.home'',
                      session_user = Some (PStr E), printed = [] \<rparr>
            | Inr False \<Rightarrow>
                Inr \<lparr> flashes = [],
                      page = Render ''login.html'' [(''email'', []), (''password'', [])],
                      session_user = None, printed = [] \<rparr>)"
proof -
  let ?user = "\<lparr> db_ctx = PDbCtx, email = PStr E,
                password = PStr (str_of_bytes L digest),
                is_authenticated = PBool True, is_anonymous = PBool False,
                is_active = PBool True,
                details = [(''is_anonymous'', PBool False), (''is_active'', PBool True),
                           (''confirmed'', PBool False)] \<rparr>"
  let ?r = "MongoReturn_init\<lparr>success := True, documents := UserDocument ?user, count := 1\<rparr>"
  from register_stores_account [OF assms(1-13)] obtain w' where
    reg: "register L S cfg now
        \<lparr>request_method = POST, form = [(''email'', E), (''password'', P), (''confirm'', P)]\<rparr> w
        = (Inr \<lparr> flashes = [(''A confirmation email has been sent via email.'', ''success'')],
                 page = Redirect ''main_bp.home'', session_user = None, printed = [] \<rparr>, w')"
    and sel: "select_by_email (users w') E = Inr ?r"
    by blast
  have c: "count ?r \<noteq> 0" and d: "documents ?r = UserDocument ?user" by simp_all
  from login_follows_password_check [OF assms(3,4,14) sel c d]
  have "login L \<lparr>request_method = POST, form = [(''email'', E), (''password'', P')]\<rparr> w' =
           (case check_password_hash L
                   (PStr (str_of_bytes L digest)) P' of
              Inl ex \<Rightarrow> Inl ex
            | Inr True \<Rightarrow>
                Inr \<lparr> flashes = [(''Welcome.'', ''success'')], page = Redirect ''main_bp.home'',
                      session_user = Some (PStr E), printed = [] \<rparr>
            | Inr False \<Rightarrow>
                Inr \<lparr> flashes = [],
                      page = Render ''login.html'' [(''email'', []), (''password'', [])],
                      session_user = None, printed = [] \<rparr>)"
    by (simp cong: sum.case_cong bool.case_cong)
  with reg show ?thesis by (intro exI conjI)
qed

end
